theory Spec2Isabelle
  imports Main "HOL-Library.Word"
begin

section \<open>Values of the plugin framework and of the Go runtime\<close>

text \<open>
  A framework attribute value (\<open>types.String\<close>, \<open>types.Bool\<close>, \<open>types.Int64\<close>) is null,
  unknown or known.  The accessors \<open>ValueString\<close>, \<open>ValueBool\<close> and \<open>ValueInt64\<close> return
  the zero value of the Go type unless the value is known; \<open>IsNull\<close> holds of the null
  value only.
\<close>

datatype 'a tf_value = Null | Unknown | Known 'a

type_synonym tf_string = "string tf_value"
type_synonym tf_bool = "bool tf_value"
type_synonym int16 = "16 word"
type_synonym int64 = "64 word"
type_synonym tf_int64 = "int64 tf_value"

fun IsNull :: "'a tf_value \<Rightarrow> bool" where
  "IsNull Null = True"
| "IsNull Unknown = False"
| "IsNull (Known v) = False"

fun ValueString :: "tf_string \<Rightarrow> string" where
  "ValueString (Known s) = s"
| "ValueString Null = []"
| "ValueString Unknown = []"

fun ValueBool :: "tf_bool \<Rightarrow> bool" where
  "ValueBool (Known b) = b"
| "ValueBool Null = False"
| "ValueBool Unknown = False"

fun ValueInt64 :: "tf_int64 \<Rightarrow> int64" where
  "ValueInt64 (Known i) = i"
| "ValueInt64 Null = 0"
| "ValueInt64 Unknown = 0"

definition StringValue :: "string \<Rightarrow> tf_string" where
  "StringValue s = Known s"

definition BoolValue :: "bool \<Rightarrow> tf_bool" where
  "BoolValue b = Known b"

definition Int64Value :: "int64 \<Rightarrow> tf_int64" where
  "Int64Value i = Known i"

text \<open>
  A Go \<open>error\<close> is represented by its message (\<open>err.Error()\<close>); \<open>errors.New\<close> builds one.
  A diagnostic added with \<open>resp.Diagnostics.AddError\<close> is its summary and its detail.
\<close>

type_synonym error = string

definition errors_New :: "string \<Rightarrow> error" where
  "errors_New msg = msg"

datatype diagnostic = AddError string string

text \<open>
  \<open>strings.EqualFold\<close> on strings of ASCII bytes, as SQL keywords and the identifiers
  compared here are: the loop of the Go function walks both strings byte by byte, accepts
  equal bytes, and otherwise orders the two bytes and accepts an upper-case letter with its
  lower-case partner; when one string ends, the lengths decide.  (On bytes from 128 on, Go
  decodes runes and consults the Unicode folding tables; the model compares such bytes for
  equality.)
\<close>

fun EqualFold :: "string \<Rightarrow> string \<Rightarrow> bool" where
  "EqualFold [] [] = True"
| "EqualFold [] (tr # t) = False"
| "EqualFold (sr # s) [] = False"
| "EqualFold (sr # s) (tr # t) =
     (if tr = sr then EqualFold s t
      else
        (let lo = (if (of_char tr :: nat) < of_char sr then tr else sr);
             hi = (if (of_char tr :: nat) < of_char sr then sr else tr)
         in if (65 :: nat) \<le> of_char lo \<and> (of_char lo :: nat) \<le> 90
               \<and> (of_char hi :: nat) = of_char lo + 32
            then EqualFold s t
            else False))"

section \<open>The grant resource: row of the privilege table\<close>

text \<open>
  The struct \<open>dbRow\<close>.  The fields \<open>Host\<close>, \<open>Db\<close> and \<open>User\<close> carry the prefix \<open>row\<close> here,
  since the resource model below has fields of the same names.
\<close>

record dbRow =
  rowHost :: string
  rowDb :: string
  rowUser :: string
  SelectPriv :: string
  InsertPriv :: string
  UpdatePriv :: string
  DeletePriv :: string
  CreatePriv :: string
  DropPriv :: string
  GrantPriv :: string
  ReferencesPriv :: string
  IndexPriv :: string
  AlterPriv :: string
  CreateTmpTablePriv :: string
  LockTablesPriv :: string
  CreateViewPriv :: string
  ShowViewPriv :: string
  CreateRoutinePriv :: string
  AlterRoutinePriv :: string
  ExecutePriv :: string
  EventPriv :: string
  TriggerPriv :: string

definition selectPrivBool :: "dbRow \<Rightarrow> bool" where
  "selectPrivBool r = (SelectPriv r = ''Y'')"

definition insertPrivBool :: "dbRow \<Rightarrow> bool" where
  "insertPrivBool r = (InsertPriv r = ''Y'')"

definition updatePrivBool :: "dbRow \<Rightarrow> bool" where
  "updatePrivBool r = (UpdatePriv r = ''Y'')"

definition deletePrivBool :: "dbRow \<Rightarrow> bool" where
  "deletePrivBool r = (DeletePriv r = ''Y'')"

definition createPrivBool :: "dbRow \<Rightarrow> bool" where
  "createPrivBool r = (CreatePriv r = ''Y'')"

definition dropPrivBool :: "dbRow \<Rightarrow> bool" where
  "dropPrivBool r = (DropPriv r = ''Y'')"

definition grantPrivBool :: "dbRow \<Rightarrow> bool" where
  "grantPrivBool r = (GrantPriv r = ''Y'')"

definition referencesPrivBool :: "dbRow \<Rightarrow> bool" where
  "referencesPrivBool r = (ReferencesPriv r = ''Y'')"

definition indexPrivBool :: "dbRow \<Rightarrow> bool" where
  "indexPrivBool r = (IndexPriv r = ''Y'')"

definition alterPrivBool :: "dbRow \<Rightarrow> bool" where
  "alterPrivBool r = (AlterPriv r = ''Y'')"

definition createTmpTablePrivBool :: "dbRow \<Rightarrow> bool" where
  "createTmpTablePrivBool r = (CreateTmpTablePriv r = ''Y'')"

definition lockTablesPrivBool :: "dbRow \<Rightarrow> bool" where
  "lockTablesPrivBool r = (LockTablesPriv r = ''Y'')"

definition createViewPrivBool :: "dbRow \<Rightarrow> bool" where
  "createViewPrivBool r = (CreateViewPriv r = ''Y'')"

definition showViewPrivBool :: "dbRow \<Rightarrow> bool" where
  "showViewPrivBool r = (ShowViewPriv r = ''Y'')"

definition createRoutinePrivBool :: "dbRow \<Rightarrow> bool" where
  "createRoutinePrivBool r = (CreateRoutinePriv r = ''Y'')"

definition alterRoutinePrivBool :: "dbRow \<Rightarrow> bool" where
  "alterRoutinePrivBool r = (AlterRoutinePriv r = ''Y'')"

definition executePrivBool :: "dbRow \<Rightarrow> bool" where
  "executePrivBool r = (ExecutePriv r = ''Y'')"

definition eventPrivBool :: "dbRow \<Rightarrow> bool" where
  "eventPrivBool r = (EventPriv r = ''Y'')"

definition triggerPrivBool :: "dbRow \<Rightarrow> bool" where
  "triggerPrivBool r = (TriggerPriv r = ''Y'')"

text \<open>
  \<open>allPrivileges\<close>: the slice \<open>privileges\<close> starts empty and each \<open>if\<close> of the source appends
  one keyword to it, in the order of the source.
\<close>

definition appendIf :: "bool \<Rightarrow> string \<Rightarrow> string list \<Rightarrow> string list" where
  "appendIf c kw privileges = (if c then privileges @ [kw] else privileges)"

definition allPrivileges :: "dbRow \<Rightarrow> string list" where
  "allPrivileges r =
    (let privileges = [];
         privileges = appendIf (selectPrivBool r) ''SELECT'' privileges;
         privileges = appendIf (insertPrivBool r) ''INSERT'' privileges;
         privileges = appendIf (updatePrivBool r) ''UPDATE'' privileges;
         privileges = appendIf (deletePrivBool r) ''DELETE'' privileges;
         privileges = appendIf (createPrivBool r) ''CREATE'' privileges;
         privileges = appendIf (dropPrivBool r) ''DROP'' privileges;
         privileges = appendIf (referencesPrivBool r) ''REFERENCES'' privileges;
         privileges = appendIf (indexPrivBool r) ''INDEX'' privileges;
         privileges = appendIf (alterPrivBool r) ''ALTER'' privileges;
         privileges = appendIf (createTmpTablePrivBool r) ''CREATE TEMPORARY TABLES'' privileges;
         privileges = appendIf (lockTablesPrivBool r) ''LOCK TABLES'' privileges;
         privileges = appendIf (createViewPrivBool r) ''CREATE VIEW'' privileges;
         privileges = appendIf (showViewPrivBool r) ''SHOW VIEW'' privileges;
         privileges = appendIf (createRoutinePrivBool r) ''CREATE ROUTINE'' privileges;
         privileges = appendIf (alterRoutinePrivBool r) ''ALTER ROUTINE'' privileges;
         privileges = appendIf (executePrivBool r) ''EXECUTE'' privileges;
         privileges = appendIf (eventPrivBool r) ''EVENT'' privileges;
         privileges = appendIf (triggerPrivBool r) ''TRIGGER'' privileges
     in privileges)"

definition allPrivilegesStringValues :: "dbRow \<Rightarrow> tf_string list" where
  "allPrivilegesStringValues r = map StringValue (allPrivileges r)"

definition row_withGrantOption :: "dbRow \<Rightarrow> tf_bool" where
  "row_withGrantOption r = BoolValue (grantPrivBool r)"

section \<open>The grant resource: model and reconciliation\<close>

record databaseGrantResourceModel =
  Database :: tf_string
  User :: tf_string
  Role :: tf_string
  Host :: tf_string
  Privileges :: "tf_string list"
  WithGrantOption :: tf_bool

definition privilegesAsString :: "databaseGrantResourceModel \<Rightarrow> string list" where
  "privilegesAsString m = map ValueString (Privileges m)"

definition databaseAsString :: "databaseGrantResourceModel \<Rightarrow> string" where
  "databaseAsString m = ValueString (Database m)"

definition hostAsString :: "databaseGrantResourceModel \<Rightarrow> string" where
  "hostAsString m = ValueString (Host m)"

definition userOrRole :: "databaseGrantResourceModel \<Rightarrow> error + string" where
  "userOrRole m =
     (if IsNull (User m) \<and> IsNull (Role m) then Inl (errors_New ''user nor role are not filled in'')
      else if \<not> IsNull (User m) then Inr (ValueString (User m))
      else Inr (ValueString (Role m)))"

definition withGrantOption :: "databaseGrantResourceModel \<Rightarrow> bool" where
  "withGrantOption m = ValueBool (WithGrantOption m)"

text \<open>
  The reconcile loop of \<open>Read\<close>.  The inner loop walks the privileges of the state
  for one privilege of the row: at the first state entry that \<open>EqualFold\<close> accepts it appends
  that entry, sets \<open>found\<close> and breaks.  The outer loop walks the privileges of the row
  and appends the row's own value when \<open>found\<close> stayed false.
\<close>

fun searchState :: "tf_string \<Rightarrow> tf_string list \<Rightarrow> tf_string list \<Rightarrow> tf_string list \<times> bool" where
  "searchState rowPermission [] privileges = (privileges, False)"
| "searchState rowPermission (statePermission # rest) privileges =
     (if EqualFold (ValueString statePermission) (ValueString rowPermission)
      then (privileges @ [statePermission], True)
      else searchState rowPermission rest privileges)"

fun reconcileLoop :: "tf_string list \<Rightarrow> tf_string list \<Rightarrow> tf_string list \<Rightarrow> tf_string list" where
  "reconcileLoop statePrivileges [] privileges = privileges"
| "reconcileLoop statePrivileges (rowPermission # rest) privileges =
     (case searchState rowPermission statePrivileges privileges of
        (privileges', found) \<Rightarrow>
          reconcileLoop statePrivileges rest
            (if \<not> found then privileges' @ [rowPermission] else privileges'))"

definition reconcile :: "tf_string list \<Rightarrow> tf_string list \<Rightarrow> tf_string list" where
  "reconcile desired observed = reconcileLoop desired observed []"

text \<open>
  \<open>Read\<close> of the grant resource.  The argument \<open>scanned\<close> is what
  \<open>r.db.QueryRowContext(...).Scan(&row. ...)\<close> gives for the row of \<open>mysql.db\<close> selected
  by host, user and database: the error of the driver (\<open>sql.ErrNoRows\<close> when the table has
  no such row) or the row.  The result is the diagnostic of the failing step, or the state
  handed to \<open>resp.State.Set\<close>.
\<close>

definition ErrNoRows :: error where
  "ErrNoRows = errors_New ''sql: no rows in result set''"

definition grantRead :: "error + dbRow \<Rightarrow> databaseGrantResourceModel
    \<Rightarrow> diagnostic + databaseGrantResourceModel" where
  "grantRead scanned state =
     (case userOrRole state of
        Inl err \<Rightarrow>
          Inl (AddError ''Error in input values''
                 (''No value for user nor role, unexpected error: '' @ err))
      | Inr userOrRole' \<Rightarrow>
          (case scanned of
             Inl err \<Rightarrow>
               Inl (AddError ''Error reading database privileges data''
                      (''Unable to read data from the database privileges table, unexpected error: '' @ err))
           | Inr row \<Rightarrow>
               Inr (state\<lparr>Privileges := reconcile (Privileges state) (allPrivilegesStringValues row),
                          WithGrantOption := row_withGrantOption row\<rparr>)))"

text \<open>
  \<open>Create\<close> of the grant resource.  The argument \<open>ExecContext\<close> gives the error, if any,
  with which the database answers a statement.  The result pairs the statements issued
  against the database, in order, with the diagnostic of the failing step or the state set.
\<close>

fun strings_Join :: "string list \<Rightarrow> string \<Rightarrow> string" where
  "strings_Join [] sep = []"
| "strings_Join [x] sep = x"
| "strings_Join (x # y # ys) sep = x @ sep @ strings_Join (y # ys) sep"

definition grantStatement :: "databaseGrantResourceModel \<Rightarrow> string \<Rightarrow> string" where
  "grantStatement plan userOrRole' =
     ''GRANT '' @ strings_Join (privilegesAsString plan) '', '' @ '' ON '' @ databaseAsString plan
       @ ''.* TO '' @ userOrRole' @ ''@'' @ [CHR 0x27] @ hostAsString plan @ [CHR 0x27]"

definition grantCreate :: "(string \<Rightarrow> error option) \<Rightarrow> databaseGrantResourceModel
    \<Rightarrow> string list \<times> (diagnostic + databaseGrantResourceModel)" where
  "grantCreate ExecContext plan =
     (case userOrRole plan of
        Inl err \<Rightarrow>
          ([], Inl (AddError ''Error in input values''
                      (''No value for user nor role, unexpected error: '' @ err)))
      | Inr userOrRole' \<Rightarrow>
          (let sqlStatement = grantStatement plan userOrRole';
               sqlStatement = (if withGrantOption plan then sqlStatement @ '' WITH GRANT OPTION''
                               else sqlStatement)
           in case ExecContext sqlStatement of
                Some err \<Rightarrow>
                  ([sqlStatement],
                   Inl (AddError ''Error granting database permissions''
                          (''Unable to grant permissions to '' @ userOrRole' @ '', unexpected error: '' @ err)))
              | None \<Rightarrow> ([sqlStatement], Inr plan)))"

text \<open>
  \<open>ConfigValidators\<close> of the grant resource: the two validators of the validator library
  over the attributes \<open>user\<close> and \<open>role\<close>.  Their meaning is the library's: an attribute
  counts as configured when its value is neither null nor unknown; \<open>Conflicting\<close> reports
  an error when more than one of its paths is configured, \<open>AtLeastOneOf\<close> when none is
  configured and none is unknown.  The framework runs the validators of a resource on its
  configuration, and calls \<open>Create\<close> only for a configuration that passed them.
\<close>

datatype attr_path = MatchRoot string

datatype config_validator = Conflicting "attr_path list" | AtLeastOneOf "attr_path list"

definition ConfigValidators :: "config_validator list" where
  "ConfigValidators =
     [Conflicting [MatchRoot ''user'', MatchRoot ''role''],
      AtLeastOneOf [MatchRoot ''user'', MatchRoot ''role'']]"

fun GetAttribute :: "databaseGrantResourceModel \<Rightarrow> attr_path \<Rightarrow> tf_string" where
  "GetAttribute config (MatchRoot name) =
     (if name = ''database'' then Database config
      else if name = ''user'' then User config
      else if name = ''role'' then Role config
      else if name = ''host'' then Host config
      else Null)"

fun isConfigured :: "'a tf_value \<Rightarrow> bool" where
  "isConfigured (Known v) = True"
| "isConfigured Null = False"
| "isConfigured Unknown = False"

fun IsUnknown :: "'a tf_value \<Rightarrow> bool" where
  "IsUnknown Unknown = True"
| "IsUnknown Null = False"
| "IsUnknown (Known v) = False"

definition configuredPaths :: "databaseGrantResourceModel \<Rightarrow> attr_path list \<Rightarrow> attr_path list" where
  "configuredPaths config paths = filter (\<lambda>p. isConfigured (GetAttribute config p)) paths"

definition unknownPaths :: "databaseGrantResourceModel \<Rightarrow> attr_path list \<Rightarrow> attr_path list" where
  "unknownPaths config paths = filter (\<lambda>p. IsUnknown (GetAttribute config p)) paths"

fun Validate :: "config_validator \<Rightarrow> databaseGrantResourceModel \<Rightarrow> diagnostic list" where
  "Validate (Conflicting paths) config =
     (if 1 < length (configuredPaths config paths)
      then [AddError ''Invalid Attribute Combination'' ''These attributes cannot be configured together'']
      else [])"
| "Validate (AtLeastOneOf paths) config =
     (if configuredPaths config paths = [] \<and> unknownPaths config paths = []
      then [AddError ''Missing Attribute Configuration'' ''At least one of these attributes must be configured'']
      else [])"

definition validateResourceConfig :: "databaseGrantResourceModel \<Rightarrow> diagnostic list" where
  "validateResourceConfig config = concat (map (\<lambda>v. Validate v config) ConfigValidators)"

definition grantCreateRequest :: "(string \<Rightarrow> error option) \<Rightarrow> databaseGrantResourceModel
    \<Rightarrow> string list \<times> (diagnostic list + databaseGrantResourceModel)" where
  "grantCreateRequest ExecContext config =
     (case validateResourceConfig config of
        [] \<Rightarrow>
          (case grantCreate ExecContext config of
             (issued, Inl d) \<Rightarrow> (issued, Inl [d])
           | (issued, Inr st) \<Rightarrow> (issued, Inr st))
      | d # ds \<Rightarrow> ([], Inl (d # ds)))"

section \<open>The privilege catalog as a table\<close>

text \<open>
  The decoding written as the specification words it: one ordered table of pairs of a
  flag field and a keyword, walked once, a keyword being kept when its flag is the
  affirmative marker \<open>Y\<close>.  It is compared with \<open>allPrivileges\<close> below.
\<close>

definition privilegeCatalog :: "((dbRow \<Rightarrow> string) \<times> string) list" where
  "privilegeCatalog =
     [(SelectPriv, ''SELECT''), (InsertPriv, ''INSERT''), (UpdatePriv, ''UPDATE''),
      (DeletePriv, ''DELETE''), (CreatePriv, ''CREATE''), (DropPriv, ''DROP''),
      (ReferencesPriv, ''REFERENCES''), (IndexPriv, ''INDEX''), (AlterPriv, ''ALTER''),
      (CreateTmpTablePriv, ''CREATE TEMPORARY TABLES''), (LockTablesPriv, ''LOCK TABLES''),
      (CreateViewPriv, ''CREATE VIEW''), (ShowViewPriv, ''SHOW VIEW''),
      (CreateRoutinePriv, ''CREATE ROUTINE''), (AlterRoutinePriv, ''ALTER ROUTINE''),
      (ExecutePriv, ''EXECUTE''), (EventPriv, ''EVENT''), (TriggerPriv, ''TRIGGER'')]"

definition decode_spec :: "dbRow \<Rightarrow> string list" where
  "decode_spec r = map snd (filter (\<lambda>entry. fst entry r = ''Y'') privilegeCatalog)"

text \<open>
  The reconciliation written as the specification words it: each observed privilege is
  replaced by the first desired entry that matches it without regard to case, and kept
  when there is none.
\<close>

definition matches :: "tf_string \<Rightarrow> tf_string \<Rightarrow> bool" where
  "matches observed desired = EqualFold (ValueString desired) (ValueString observed)"

definition chooseEntry :: "tf_string list \<Rightarrow> tf_string \<Rightarrow> tf_string" where
  "chooseEntry desired observed =
     (case List.find (matches observed) desired of Some d \<Rightarrow> d | None \<Rightarrow> observed)"

definition reconcile_spec :: "tf_string list \<Rightarrow> tf_string list \<Rightarrow> tf_string list" where
  "reconcile_spec desired observed = map (chooseEntry desired) observed"

text \<open>Lower-casing of ASCII letters, the normal form behind \<open>EqualFold\<close>.\<close>

definition lowerASCII :: "char \<Rightarrow> char" where
  "lowerASCII c =
     (if (65 :: nat) \<le> of_char c \<and> (of_char c :: nat) \<le> 90 then char_of (of_char c + 32 :: nat)
      else c)"

definition foldKey :: "tf_string \<Rightarrow> string" where
  "foldKey v = map lowerASCII (ValueString v)"

section \<open>The audit-rule resource\<close>

text \<open>
  The model of the resource and the row of the listing procedure.  The fields of the row
  that share a name with a field of a model carry the prefix \<open>rule\<close>, and those of the
  audit model the prefix \<open>audit\<close>.
\<close>

record auditRuleResourceModel =
  Id :: tf_int64
  auditUser :: tf_string
  auditDatabase :: tf_string
  Object :: tf_string
  Operation :: tf_string
  OpsResult :: tf_string

record auditRuleRow =
  ruleId :: int64
  ruleUser :: string
  Dbname :: string
  ruleObject :: string
  ruleOperation :: string
  OpResult :: string

record NullInt16 =
  Int16 :: int16
  Int16Valid :: bool

record NullString =
  String :: string
  StringValid :: bool

definition equalsModel :: "auditRuleRow \<Rightarrow> auditRuleResourceModel \<Rightarrow> bool" where
  "equalsModel row model =
     (if \<not> EqualFold (ruleUser row) (ValueString (auditUser model)) then False
      else if \<not> EqualFold (Dbname row) (ValueString (auditDatabase model)) then False
      else if \<not> EqualFold (ruleObject row) (ValueString (Object model)) then False
      else if \<not> EqualFold (ruleOperation row) (ValueString (Operation model)) then False
      else if \<not> EqualFold (OpResult row) (ValueString (OpsResult model)) then False
      else True)"

text \<open>
  \<open>auditRuleStoredProcedureResponse\<close>: the argument is what the scan of
  \<open>SELECT @outval, @outmsg;\<close> gives, an error or the two session variables.  The status is
  a signed 16-bit integer and is compared with zero as such.
\<close>

definition auditRuleStoredProcedureResponse :: "error + NullInt16 \<times> NullString \<Rightarrow> error option" where
  "auditRuleStoredProcedureResponse scanned =
     (case scanned of
        Inl err \<Rightarrow> Some err
      | Inr (outval, outmsg) \<Rightarrow>
          (if 0 < sint (Int16 outval) then Some (errors_New (String outmsg)) else None))"

text \<open>
  What the database answers to the calls of \<open>Create\<close>, in the order of the calls: the
  creating procedure, the read of the session variables, the listing procedure with the
  rows it returns (each row scans or gives an error), and the second read of the session
  variables.
\<close>

record auditCreateDb =
  createCall :: "error option"
  createResponse :: "error + NullInt16 \<times> NullString"
  listCall :: "error + (error + auditRuleRow) list"
  listResponse :: "error + NullInt16 \<times> NullString"

text \<open>
  The loop over \<open>rows.Next()\<close>: a row that fails to scan ends \<open>Create\<close> with that error,
  the first row equal to the plan sets \<open>id\<close> and breaks, and the end of the rows leaves
  \<open>id\<close> as it was (\<open>id'\<close> here, \<open>id\<close> being the identity function of HOL).
\<close>

fun scanRows :: "auditRuleResourceModel \<Rightarrow> (error + auditRuleRow) list \<Rightarrow> int64 \<Rightarrow> error + int64" where
  "scanRows plan [] id' = Inr id'"
| "scanRows plan (Inl err # rows) id' = Inl err"
| "scanRows plan (Inr row # rows) id' =
     (if equalsModel row plan then Inr (ruleId row) else scanRows plan rows id')"

definition createFailed :: "string \<Rightarrow> diagnostic" where
  "createFailed detail =
     AddError ''Unable to create the audit rule''
       (''An unexpected error occured while creating the audit rule: '' @ detail)"

definition auditRuleCreate :: "auditCreateDb \<Rightarrow> auditRuleResourceModel
    \<Rightarrow> diagnostic + auditRuleResourceModel" where
  "auditRuleCreate db plan =
     (case createCall db of
        Some err \<Rightarrow> Inl (createFailed err)
      | None \<Rightarrow>
     (case auditRuleStoredProcedureResponse (createResponse db) of
        Some err \<Rightarrow> Inl (createFailed err)
      | None \<Rightarrow>
     (case listCall db of
        Inl err \<Rightarrow> Inl (createFailed err)
      | Inr rows \<Rightarrow>
     (case auditRuleStoredProcedureResponse (listResponse db) of
        Some err \<Rightarrow> Inl (createFailed err)
      | None \<Rightarrow>
     (case scanRows plan rows (- 1) of
        Inl err \<Rightarrow> Inl (createFailed err)
      | Inr id' \<Rightarrow>
          (if id' = - 1
           then Inl (createFailed ''the audit rule is not found after creation'')
           else Inr (plan\<lparr>Id := Int64Value id'\<rparr>)))))))"

section \<open>The connection registry\<close>

text \<open>
  A handle \<open>*sql.DB\<close> is a pointer, told apart by its address.  The registry maps a data
  source name to the handle stored for it; a name with no entry and a name with a nil
  entry read alike in Go, and both are \<open>None\<close> here.  \<open>sql.Open\<close> belongs to the runtime: it
  is a parameter that, in a state of the runtime, gives an error or a new handle, and the
  next state of the runtime.  The calls are taken one after the other, as the mutex
  arranges.
\<close>

type_synonym sql_DB = nat

record Config =
  dsnTemplate :: string
  dbRegistry :: "string \<rightharpoonup> sql_DB"

definition newConfig :: "string \<Rightarrow> Config" where
  "newConfig template = \<lparr>dsnTemplate = template, dbRegistry = Map.empty\<rparr>"

definition connectToMySQL :: "('w \<Rightarrow> string \<Rightarrow> (error + sql_DB) \<times> 'w) \<Rightarrow> string \<Rightarrow> Config \<times> 'w
    \<Rightarrow> (error + sql_DB) \<times> Config \<times> 'w" where
  "connectToMySQL sql_Open dsn cw =
     (case cw of (c, w) \<Rightarrow>
        (case dbRegistry c dsn of
           Some db \<Rightarrow> (Inr db, c, w)
         | None \<Rightarrow>
             (case sql_Open w dsn of
                (Inl err, w') \<Rightarrow> (Inl err, c, w')
              | (Inr db, w') \<Rightarrow> (Inr db, c\<lparr>dbRegistry := (dbRegistry c)(dsn \<mapsto> db)\<rparr>, w'))))"

text \<open>
  A runtime for examples: its state counts the handles opened so far, the empty data
  source name is refused, and every other name opens the next handle.
\<close>

definition countingOpen :: "nat \<Rightarrow> string \<Rightarrow> (error + sql_DB) \<times> nat" where
  "countingOpen w dsn =
     (if dsn = [] then (Inl (errors_New ''invalid DSN''), w) else (Inr (Suc w), Suc w))"

section \<open>Inputs for examples\<close>

text \<open>
  A row of \<open>mysql.db\<close> for the user \<open>user\<close> on the database \<open>database\<close> whose privilege
  columns, the grant column apart, all hold \<open>flag\<close>; and a state of the grant resource for
  that user.
\<close>

definition exampleRow :: "string \<Rightarrow> string \<Rightarrow> dbRow" where
  "exampleRow flag grantFlag =
     \<lparr>rowHost = ''%'', rowDb = ''database'', rowUser = ''user'',
      SelectPriv = flag, InsertPriv = flag, UpdatePriv = flag, DeletePriv = flag,
      CreatePriv = flag, DropPriv = flag, GrantPriv = grantFlag, ReferencesPriv = flag,
      IndexPriv = flag, AlterPriv = flag, CreateTmpTablePriv = flag, LockTablesPriv = flag,
      CreateViewPriv = flag, ShowViewPriv = flag, CreateRoutinePriv = flag,
      AlterRoutinePriv = flag, ExecutePriv = flag, EventPriv = flag, TriggerPriv = flag\<rparr>"

definition exampleGrant :: "tf_string \<Rightarrow> tf_string \<Rightarrow> databaseGrantResourceModel" where
  "exampleGrant user role =
     \<lparr>Database = StringValue ''database'', User = user, Role = role, Host = StringValue ''%'',
      Privileges = [StringValue ''select''], WithGrantOption = BoolValue True\<rparr>"

definition exampleRule :: auditRuleResourceModel where
  "exampleRule =
     \<lparr>Id = Unknown, auditUser = StringValue ''user'', auditDatabase = StringValue ''database'',
      Object = StringValue ''*'', Operation = StringValue ''select'',
      OpsResult = StringValue ''B''\<rparr>"

definition exampleRuleRow :: "int64 \<Rightarrow> string \<Rightarrow> auditRuleRow" where
  "exampleRuleRow n operation =
     \<lparr>ruleId = n, ruleUser = ''USER'', Dbname = ''database'', ruleObject = ''*'',
      ruleOperation = operation, OpResult = ''b''\<rparr>"

definition procedureOutcome :: "int16 \<Rightarrow> string \<Rightarrow> error + NullInt16 \<times> NullString" where
  "procedureOutcome status msg =
     Inr (\<lparr>Int16 = status, Int16Valid = True\<rparr>, \<lparr>String = msg, StringValid = True\<rparr>)"

definition exampleCreateDb :: "auditRuleRow list \<Rightarrow> auditCreateDb" where
  "exampleCreateDb rows =
     \<lparr>createCall = None, createResponse = procedureOutcome 0 [],
      listCall = Inr (map Inr rows), listResponse = procedureOutcome 0 []\<rparr>"

section \<open>Case folding\<close>

lemma of_char_inj_nat: "(of_char a :: nat) = of_char b \<Longrightarrow> a = b"
  by (metis char_of_char)

lemma lower_eq_iff:
  "lowerASCII a = lowerASCII b \<longleftrightarrow>
     (a = b \<or> ((65 :: nat) \<le> of_char a \<and> (of_char a :: nat) \<le> 90 \<and> (of_char b :: nat) = of_char a + 32)
            \<or> ((65 :: nat) \<le> of_char b \<and> (of_char b :: nat) \<le> 90 \<and> (of_char a :: nat) = of_char b + 32))"
proof -
  have key: "lowerASCII a = lowerASCII b \<longleftrightarrow> (of_char (lowerASCII a) :: nat) = of_char (lowerASCII b)"
    using of_char_inj_nat by auto
  have la: "(of_char (lowerASCII a) :: nat) = (if 65 \<le> (of_char a :: nat) \<and> (of_char a :: nat) \<le> 90 then of_char a + 32 else of_char a)"
    by (simp add: lowerASCII_def)
  have lb: "(of_char (lowerASCII b) :: nat) = (if 65 \<le> (of_char b :: nat) \<and> (of_char b :: nat) \<le> 90 then of_char b + 32 else of_char b)"
    by (simp add: lowerASCII_def)
  have ab: "a = b \<longleftrightarrow> (of_char a :: nat) = of_char b"
    using of_char_inj_nat by auto
  show ?thesis unfolding key la lb ab by (auto split: if_splits)
qed

lemma EqualFold_iff: "EqualFold s t \<longleftrightarrow> map lowerASCII s = map lowerASCII t"
proof (induction s t rule: EqualFold.induct)
  case (4 sr s tr t)
  show ?case
  proof (cases "tr = sr")
    case True
    then show ?thesis using 4 by simp
  next
    case False
    have ne: "(of_char tr :: nat) \<noteq> of_char sr"
      using False of_char_inj_nat by blast
    define lo where "lo = (if (of_char tr :: nat) < of_char sr then tr else sr)"
    define hi where "hi = (if (of_char tr :: nat) < of_char sr then sr else tr)"
    define c where "c \<longleftrightarrow> (65 :: nat) \<le> of_char lo \<and> (of_char lo :: nat) \<le> 90
               \<and> (of_char hi :: nat) = of_char lo + 32"
    have unf: "EqualFold (sr # s) (tr # t) = (if c then EqualFold s t else False)"
      using False by (simp add: Let_def lo_def hi_def c_def)
    have hd: "lowerASCII sr = lowerASCII tr \<longleftrightarrow> c"
      using False ne unfolding c_def lo_def hi_def lower_eq_iff by auto
    show ?thesis
    proof (cases c)
      case True
      have "EqualFold s t \<longleftrightarrow> map lowerASCII s = map lowerASCII t"
        using "4.IH"(2) [OF False lo_def hi_def] True unfolding c_def by blast
      then show ?thesis using unf hd True by simp
    next
      case False
      then show ?thesis using unf hd by simp
    qed
  qed
qed simp_all

lemma matches_foldKey: "matches observed desired \<longleftrightarrow> foldKey desired = foldKey observed"
  by (simp add: matches_def foldKey_def EqualFold_iff)

lemma searchState_find:
  "searchState rowPermission st privileges =
     (case List.find (matches rowPermission) st of
        Some d \<Rightarrow> (privileges @ [d], True)
      | None \<Rightarrow> (privileges, False))"
  by (induction st) (simp_all add: matches_def)

lemma reconcileLoop_map:
  "reconcileLoop st obs privileges = privileges @ map (chooseEntry st) obs"
  by (induction obs arbitrary: privileges)
     (simp_all add: searchState_find chooseEntry_def split: option.split)

lemma reconcile_eq_spec: "reconcile desired observed = reconcile_spec desired observed"
  by (simp add: reconcile_def reconcile_spec_def reconcileLoop_map)

lemma foldKey_chooseEntry: "foldKey (chooseEntry desired ob) = foldKey ob"
  unfolding chooseEntry_def
  by (auto split: option.split simp: find_Some_iff matches_foldKey)

lemma find_in_chosen:
  assumes "inj_on foldKey S" "set obs \<subseteq> S" "ob \<in> set obs" "ob \<in> S"
  shows "List.find (matches ob) (map (chooseEntry desired) obs) = Some (chooseEntry desired ob)"
  using assms
proof (induction obs)
  case Nil
  then show ?case by simp
next
  case (Cons x xs)
  show ?case
  proof (cases "foldKey x = foldKey ob")
    case True
    then have "x = ob" using Cons.prems by (auto dest: inj_onD)
    then show ?thesis by (simp add: matches_foldKey foldKey_chooseEntry)
  next
    case False
    then have "ob \<in> set xs" using Cons.prems by auto
    then show ?thesis using Cons False by (simp add: matches_foldKey foldKey_chooseEntry)
  qed
qed

lemma reconcile_fixed_point_inj:
  assumes "inj_on foldKey (set observed)"
  shows "reconcile (reconcile desired observed) observed = reconcile desired observed"
proof -
  have "chooseEntry (map (chooseEntry desired) observed) ob = chooseEntry desired ob"
    if "ob \<in> set observed" for ob
    using find_in_chosen [OF assms subset_refl that that, of desired]
    by (simp add: chooseEntry_def)
  then show ?thesis
    by (simp add: reconcile_eq_spec reconcile_spec_def)
qed

section \<open>Decoding a row\<close>

lemma appendIf_append: "appendIf c kw privileges = privileges @ (if c then [kw] else [])"
  by (simp add: appendIf_def)

lemma foldl_catalog:
  "foldl (\<lambda>privileges entry. appendIf (fst entry r = ''Y'') (snd entry) privileges) privileges catalog
     = privileges @ map snd (filter (\<lambda>entry. fst entry r = ''Y'') catalog)"
  by (induction catalog arbitrary: privileges) (simp_all add: appendIf_append)

lemma allPrivileges_foldl:
  "allPrivileges r =
     foldl (\<lambda>privileges entry. appendIf (fst entry r = ''Y'') (snd entry) privileges) [] privilegeCatalog"
  by (simp add: allPrivileges_def privilegeCatalog_def Let_def
      selectPrivBool_def insertPrivBool_def updatePrivBool_def deletePrivBool_def createPrivBool_def
      dropPrivBool_def referencesPrivBool_def indexPrivBool_def alterPrivBool_def
      createTmpTablePrivBool_def lockTablesPrivBool_def createViewPrivBool_def showViewPrivBool_def
      createRoutinePrivBool_def alterRoutinePrivBool_def executePrivBool_def eventPrivBool_def
      triggerPrivBool_def)

lemma allPrivileges_decode: "allPrivileges r = decode_spec r"
  by (simp only: allPrivileges_foldl foldl_catalog decode_spec_def append_Nil)

lemma catalog_length: "length privilegeCatalog = 18"
  by (simp add: privilegeCatalog_def)

lemma catalog_keys_distinct: "distinct (map (\<lambda>entry. map lowerASCII (snd entry)) privilegeCatalog)"
  by (simp add: privilegeCatalog_def lowerASCII_def)

lemma observed_keys_distinct: "distinct (map foldKey (allPrivilegesStringValues row))"
proof -
  have "map foldKey (allPrivilegesStringValues row)
          = map (\<lambda>entry. map lowerASCII (snd entry))
              (filter (\<lambda>entry. fst entry row = ''Y'') privilegeCatalog)"
    by (simp add: allPrivilegesStringValues_def allPrivileges_decode decode_spec_def foldKey_def
        StringValue_def comp_def)
  then show ?thesis
    using catalog_keys_distinct by (simp add: distinct_map_filter)
qed

section \<open>Reconciliation of the privileges\<close>

text \<open>
  Claim C1.  Reconciling is a fixed point: for every desired list and every list of
  privileges observed in a row of the privilege table, reconciling the output of a
  reconciliation against the same observed list gives that output again.  The observed
  list of \<open>Read\<close> is always decoded from a row, so its entries are keywords of the catalog,
  no two of which are equal up to case.
\<close>

theorem reconcile_fixed_point:
  "reconcile (reconcile desired (allPrivilegesStringValues row)) (allPrivilegesStringValues row)
     = reconcile desired (allPrivilegesStringValues row)"
  using observed_keys_distinct [of row]
  by (intro reconcile_fixed_point_inj) (simp add: distinct_map)

text \<open>
  The restriction to decoded rows matters: an observed list holding the same keyword in two
  casings, which no row decodes to, is not reproduced.
\<close>

lemma reconcile_two_casings:
  "reconcile (reconcile [] [StringValue ''SELECT'', StringValue ''select''])
       [StringValue ''SELECT'', StringValue ''select'']
     = [StringValue ''SELECT'', StringValue ''SELECT'']"
  by (simp add: reconcile_def StringValue_def)

text \<open>
  Claim C2.  Every entry that reconciling emits matches, without regard to case, the
  observed privilege at the same position, and the output has one entry for each observed
  privilege: nothing absent from the observed list is emitted and nothing present in it is
  dropped.
\<close>

theorem reconcile_follows_observed:
  "list_all2 (\<lambda>emitted observedPrivilege.
        EqualFold (ValueString emitted) (ValueString observedPrivilege))
      (reconcile desired observed) observed
   \<and> length (reconcile desired observed) = length observed"
proof -
  have "EqualFold (ValueString (chooseEntry desired ob)) (ValueString ob)" for ob
    using foldKey_chooseEntry [of desired ob] by (simp add: EqualFold_iff foldKey_def)
  then show ?thesis
    by (simp add: reconcile_eq_spec reconcile_spec_def list_all2_conv_all_nth)
qed

text \<open>
  Claim C3.  For each observed privilege, reconciling emits the first desired entry that
  matches it without regard to case, in the casing of the desired list, and emits the
  observed privilege itself when no desired entry matches; so \<open>select\<close> against \<open>SELECT\<close>
  gives \<open>select\<close>, and an empty desired list against \<open>SELECT\<close>, \<open>INSERT\<close> gives these two.
\<close>

theorem reconcile_casing:
  "reconcile desired observed = reconcile_spec desired observed
   \<and> reconcile [StringValue ''select''] [StringValue ''SELECT''] = [StringValue ''select'']
   \<and> reconcile [] [StringValue ''SELECT'', StringValue ''INSERT'']
        = [StringValue ''SELECT'', StringValue ''INSERT'']"
  by (simp add: reconcile_def reconcileLoop_map reconcile_spec_def chooseEntry_def matches_def
      StringValue_def)

section \<open>User or role\<close>

text \<open>
  Claim C10.  \<open>userOrRole\<close> gives an error exactly when user and role are both null; when
  the user is not null it gives the value of the user without error, also when the role is
  not null either, so that the user comes first and the function itself does not reject a
  model with both set.
\<close>

theorem userOrRole_user_first:
  "(isl (userOrRole m) \<longleftrightarrow> IsNull (User m) \<and> IsNull (Role m))
   \<and> (\<not> IsNull (User m) \<longrightarrow> userOrRole m = Inr (ValueString (User m)))"
  by (simp add: userOrRole_def)

theorem userOrRole_user_first_witness:
  "\<not> IsNull (User (exampleGrant (StringValue ''user'') (StringValue ''role'')))
   \<and> \<not> IsNull (Role (exampleGrant (StringValue ''user'') (StringValue ''role'')))
   \<and> userOrRole (exampleGrant (StringValue ''user'') (StringValue ''role'')) = Inr ''user''
   \<and> isl (userOrRole (exampleGrant Null Null))"
  using userOrRole_user_first [of "exampleGrant (StringValue ''user'') (StringValue ''role'')"]
    userOrRole_user_first [of "exampleGrant Null Null"]
  by (simp add: exampleGrant_def StringValue_def)

section \<open>The catalog of privileges\<close>

text \<open>
  Claim C7, as the specification states it, gives the catalog exactly 17 names.  A row with
  every privilege column set decodes to 18 names, no two alike.
\<close>

theorem catalog_has_18_counterexample:
  "distinct (allPrivileges (exampleRow ''Y'' ''N''))
   \<and> length (allPrivileges (exampleRow ''Y'' ''N'')) = 18"
  by (simp add: allPrivileges_decode decode_spec_def privilegeCatalog_def exampleRow_def)

text \<open>
  Claim C7, amended.  Decoding walks a fixed ordered catalog of exactly 18 distinct
  privilege names, in the order of the catalog, and keeps a name if and only if its flag in
  the row equals the affirmative marker \<open>Y\<close>.
\<close>

theorem allPrivileges_catalog:
  "allPrivileges r = decode_spec r
   \<and> length privilegeCatalog = 18
   \<and> distinct (map snd privilegeCatalog)"
proof -
  have "distinct (map snd privilegeCatalog)"
    by (simp add: privilegeCatalog_def)
  then show ?thesis
    by (simp add: allPrivileges_decode catalog_length)
qed

section \<open>Reading a grant with no privileges\<close>

text \<open>
  Claim C4, as the specification states it, makes \<open>Read\<close> fail whenever the observed data
  yields no privilege.  For a row that exists with no privilege column set (here only the
  grant option is held) \<open>Read\<close> does not fail: it stores the empty list of privileges.
\<close>

theorem grantRead_empty_row_counterexample:
  "allPrivileges (exampleRow ''N'' ''Y'') = []
   \<and> grantRead (Inr (exampleRow ''N'' ''Y'')) (exampleGrant (StringValue ''user'') Null)
       = Inr ((exampleGrant (StringValue ''user'') Null)
                \<lparr>Privileges := [], WithGrantOption := BoolValue True\<rparr>)"
  by (simp add: allPrivileges_decode decode_spec_def privilegeCatalog_def exampleRow_def
      grantRead_def userOrRole_def exampleGrant_def StringValue_def reconcile_def
      allPrivilegesStringValues_def row_withGrantOption_def grantPrivBool_def)

text \<open>
  Claim C4, amended.  When the row is missing from the privilege table, the query gives
  \<open>sql.ErrNoRows\<close> and \<open>Read\<close> fails with the diagnostic of the read, carrying that error;
  when the row exists and none of its privilege flags is affirmative, \<open>Read\<close> succeeds and
  stores an empty list of privileges together with the grant option of the row.
\<close>

theorem grantRead_zero_privileges:
  "(userOrRole state = Inr u \<longrightarrow>
      grantRead (Inl ErrNoRows) state
        = Inl (AddError ''Error reading database privileges data''
                 (''Unable to read data from the database privileges table, unexpected error: ''
                    @ ErrNoRows)))
   \<and> (userOrRole state = Inr u \<and> allPrivileges row = [] \<longrightarrow>
      grantRead (Inr row) state
        = Inr (state\<lparr>Privileges := [], WithGrantOption := row_withGrantOption row\<rparr>))"
  by (simp add: grantRead_def allPrivilegesStringValues_def reconcile_def)

theorem grantRead_zero_privileges_witness:
  "userOrRole (exampleGrant (StringValue ''user'') Null) = Inr ''user''
   \<and> allPrivileges (exampleRow ''N'' ''Y'') = []
   \<and> isl (grantRead (Inl ErrNoRows) (exampleGrant (StringValue ''user'') Null))
   \<and> grantRead (Inr (exampleRow ''N'' ''Y'')) (exampleGrant (StringValue ''user'') Null)
       = Inr ((exampleGrant (StringValue ''user'') Null)
                \<lparr>Privileges := [], WithGrantOption := BoolValue True\<rparr>)"
proof -
  have u: "userOrRole (exampleGrant (StringValue ''user'') Null) = Inr ''user''"
    by (simp add: userOrRole_def exampleGrant_def StringValue_def)
  have e: "allPrivileges (exampleRow ''N'' ''Y'') = []"
    by (simp add: allPrivileges_decode decode_spec_def privilegeCatalog_def exampleRow_def)
  have g: "row_withGrantOption (exampleRow ''N'' ''Y'') = BoolValue True"
    by (simp add: row_withGrantOption_def grantPrivBool_def exampleRow_def)
  show ?thesis
    using grantRead_zero_privileges
      [of "exampleGrant (StringValue ''user'') Null" "''user''" "exampleRow ''N'' ''Y''"] u e g
    by simp
qed

section \<open>The confirm step of the audit-rule protocol\<close>

text \<open>
  Claim C5, as the specification states it, makes the confirm step fail for every nonzero
  status.  The status is a signed 16-bit integer and the step tests it for being greater
  than zero: the status \<open>-1\<close> passes as a success.
\<close>

theorem negative_status_counterexample:
  "auditRuleStoredProcedureResponse (procedureOutcome (- 1) ''failed'') = None"
  by (simp add: auditRuleStoredProcedureResponse_def procedureOutcome_def)

text \<open>
  Claim C5, amended.  When the two session variables are read, the confirm step fails,
  with the session message as its error, if and only if the status is greater than zero;
  a status of zero or below lets the operation proceed as a success.  When the read of the
  variables fails itself, the step fails with the error of the read.
\<close>

theorem auditRuleStoredProcedureResponse_positive:
  "(auditRuleStoredProcedureResponse (Inr (outval, outmsg)) = Some (errors_New (String outmsg))
      \<longleftrightarrow> 0 < sint (Int16 outval))
   \<and> (auditRuleStoredProcedureResponse (Inr (outval, outmsg)) = None
      \<longleftrightarrow> sint (Int16 outval) \<le> 0)
   \<and> auditRuleStoredProcedureResponse (Inl err) = Some err"
  by (auto simp add: auditRuleStoredProcedureResponse_def)

section \<open>Correlation after the creation of an audit rule\<close>

lemma scanRows_find:
  "scanRows plan (map Inr rows) id' =
     (case List.find (\<lambda>row. equalsModel row plan) rows of
        None \<Rightarrow> Inr id'
      | Some row \<Rightarrow> Inr (ruleId row))"
  by (induction rows) simp_all

text \<open>
  Claim C6, as the specification states it, gives the resource the id of the first matching
  row whenever a row matches.  The loop marks "no row found" by the id \<open>-1\<close>: a matching
  row whose own id is \<open>-1\<close> is reported as not found.
\<close>

theorem sentinel_id_counterexample:
  "equalsModel (exampleRuleRow (- 1) ''SELECT'') exampleRule
   \<and> auditRuleCreate (exampleCreateDb [exampleRuleRow (- 1) ''SELECT'']) exampleRule
       = Inl (createFailed ''the audit rule is not found after creation'')"
  by (simp add: auditRuleCreate_def exampleCreateDb_def exampleRuleRow_def exampleRule_def
      equalsModel_def procedureOutcome_def auditRuleStoredProcedureResponse_def StringValue_def)

text \<open>
  Claim C6, amended.  When the creating call, the listing call and both confirm steps
  succeed and every listed row scans: if no row matches the plan in all five fields without
  regard to case, \<open>Create\<close> fails with the error "not found after creation" and sets no
  state; if a row matches and the id of the first matching row is not \<open>-1\<close>, \<open>Create\<close> sets
  the state of the plan with that id.
\<close>

theorem auditRuleCreate_correlation:
  assumes "createCall db = None"
    and "auditRuleStoredProcedureResponse (createResponse db) = None"
    and "listCall db = Inr (map Inr rows)"
    and "auditRuleStoredProcedureResponse (listResponse db) = None"
  shows "(List.find (\<lambda>row. equalsModel row plan) rows = None \<longrightarrow>
            auditRuleCreate db plan
              = Inl (createFailed ''the audit rule is not found after creation''))
       \<and> (List.find (\<lambda>row. equalsModel row plan) rows = Some found \<and> ruleId found \<noteq> - 1 \<longrightarrow>
            auditRuleCreate db plan = Inr (plan\<lparr>Id := Int64Value (ruleId found)\<rparr>))"
  using assms by (simp add: auditRuleCreate_def scanRows_find)

theorem auditRuleCreate_correlation_witness:
  "auditRuleCreate (exampleCreateDb [exampleRuleRow 1 ''insert'']) exampleRule
     = Inl (createFailed ''the audit rule is not found after creation'')
   \<and> auditRuleCreate
       (exampleCreateDb [exampleRuleRow 1 ''insert'', exampleRuleRow 7 ''SELECT'',
                         exampleRuleRow 9 ''select'']) exampleRule
     = Inr (exampleRule\<lparr>Id := Int64Value 7\<rparr>)"
proof -
  have r: "auditRuleStoredProcedureResponse (procedureOutcome 0 []) = None"
    by (simp add: auditRuleStoredProcedureResponse_def procedureOutcome_def)
  have f1: "List.find (\<lambda>row. equalsModel row exampleRule) [exampleRuleRow 1 ''insert''] = None"
    by (simp add: exampleRuleRow_def exampleRule_def equalsModel_def StringValue_def)
  have f2: "List.find (\<lambda>row. equalsModel row exampleRule)
              [exampleRuleRow 1 ''insert'', exampleRuleRow 7 ''SELECT'', exampleRuleRow 9 ''select'']
            = Some (exampleRuleRow 7 ''SELECT'')"
    by (simp add: exampleRuleRow_def exampleRule_def equalsModel_def StringValue_def)
  have i: "ruleId (exampleRuleRow 7 ''SELECT'') = 7" "(7 :: int64) \<noteq> - 1"
    by (simp_all add: exampleRuleRow_def)
  show ?thesis
    using auditRuleCreate_correlation
        [of "exampleCreateDb [exampleRuleRow 1 ''insert'']" "[exampleRuleRow 1 ''insert'']"
            exampleRule "exampleRuleRow 7 ''SELECT''"]
      auditRuleCreate_correlation
        [of "exampleCreateDb [exampleRuleRow 1 ''insert'', exampleRuleRow 7 ''SELECT'',
                              exampleRuleRow 9 ''select'']"
            "[exampleRuleRow 1 ''insert'', exampleRuleRow 7 ''SELECT'', exampleRuleRow 9 ''select'']"
            exampleRule "exampleRuleRow 7 ''SELECT''"]
      r f1 f2 i
    by (simp add: exampleCreateDb_def)
qed

section \<open>The connection registry\<close>

text \<open>
  Claim C8.  Acquiring a connection is idempotent: when a call for a data source name
  gives a handle, the next call for the same name gives the same handle and changes
  neither the registry nor the runtime, so that it opens nothing; and when the opening of a
  new handle fails, the registry is left as it was.
\<close>

theorem connectToMySQL_idempotent:
  "(connectToMySQL sql_Open dsn (c, w) = (Inr db, c', w') \<longrightarrow>
      connectToMySQL sql_Open dsn (c', w') = (Inr db, c', w'))
   \<and> (connectToMySQL sql_Open dsn (c, w) = (Inl err, c', w') \<longrightarrow> c' = c)"
  by (auto simp add: connectToMySQL_def split: option.splits sum.splits prod.splits)

theorem connectToMySQL_idempotent_witness:
  "connectToMySQL countingOpen ''dsn'' (newConfig ''template'', 0)
     = (Inr 1, (newConfig ''template'')\<lparr>dbRegistry := [''dsn'' \<mapsto> 1]\<rparr>, 1)
   \<and> connectToMySQL countingOpen ''dsn''
        ((newConfig ''template'')\<lparr>dbRegistry := [''dsn'' \<mapsto> 1]\<rparr>, 1)
     = (Inr 1, (newConfig ''template'')\<lparr>dbRegistry := [''dsn'' \<mapsto> 1]\<rparr>, 1)
   \<and> connectToMySQL countingOpen [] (newConfig ''template'', 0)
     = (Inl (errors_New ''invalid DSN''), newConfig ''template'', 0)"
proof -
  have first: "connectToMySQL countingOpen ''dsn'' (newConfig ''template'', 0)
     = (Inr 1, (newConfig ''template'')\<lparr>dbRegistry := [''dsn'' \<mapsto> 1]\<rparr>, 1)"
    by (simp add: connectToMySQL_def countingOpen_def newConfig_def)
  have failing: "connectToMySQL countingOpen [] (newConfig ''template'', 0)
     = (Inl (errors_New ''invalid DSN''), newConfig ''template'', 0)"
    by (simp add: connectToMySQL_def countingOpen_def newConfig_def)
  show ?thesis
    using connectToMySQL_idempotent
        [of countingOpen "''dsn''" "newConfig ''template''" 0 1
            "(newConfig ''template'')\<lparr>dbRegistry := [''dsn'' \<mapsto> 1]\<rparr>" 1]
      first failing
    by simp
qed

section \<open>Validation before the creation of a grant\<close>

lemma validateResourceConfig_both:
  "isConfigured (User config) \<Longrightarrow> isConfigured (Role config) \<Longrightarrow>
     validateResourceConfig config \<noteq> []"
  by (simp add: validateResourceConfig_def ConfigValidators_def configuredPaths_def)

lemma validateResourceConfig_neither:
  "IsNull (User config) \<Longrightarrow> IsNull (Role config) \<Longrightarrow> validateResourceConfig config \<noteq> []"
  by (cases "User config"; cases "Role config")
     (simp_all add: validateResourceConfig_def ConfigValidators_def configuredPaths_def
        unknownPaths_def)

text \<open>
  Claim C9.  A request to create a grant in which user and role are both set, or in which
  neither is set, fails before any statement is issued against the database.
\<close>

theorem grantCreateRequest_validates:
  "(isConfigured (User config) \<and> isConfigured (Role config))
     \<or> (IsNull (User config) \<and> IsNull (Role config)) \<Longrightarrow>
   fst (grantCreateRequest ExecContext config) = []
     \<and> isl (snd (grantCreateRequest ExecContext config))"
proof -
  assume "(isConfigured (User config) \<and> isConfigured (Role config))
     \<or> (IsNull (User config) \<and> IsNull (Role config))"
  then have "validateResourceConfig config \<noteq> []"
    using validateResourceConfig_both validateResourceConfig_neither by blast
  then show ?thesis
    by (cases "validateResourceConfig config") (simp_all add: grantCreateRequest_def)
qed

theorem grantCreateRequest_validates_witness:
  "isConfigured (User (exampleGrant (StringValue ''user'') (StringValue ''role'')))
   \<and> isConfigured (Role (exampleGrant (StringValue ''user'') (StringValue ''role'')))
   \<and> fst (grantCreateRequest (\<lambda>statement. None)
            (exampleGrant (StringValue ''user'') (StringValue ''role''))) = []
   \<and> isl (snd (grantCreateRequest (\<lambda>statement. None)
            (exampleGrant (StringValue ''user'') (StringValue ''role''))))
   \<and> IsNull (User (exampleGrant Null Null)) \<and> IsNull (Role (exampleGrant Null Null))
   \<and> fst (grantCreateRequest (\<lambda>statement. None) (exampleGrant Null Null)) = []
   \<and> isl (snd (grantCreateRequest (\<lambda>statement. None) (exampleGrant Null Null)))"
  using grantCreateRequest_validates
      [of "exampleGrant (StringValue ''user'') (StringValue ''role'')" "\<lambda>statement. None"]
    grantCreateRequest_validates [of "exampleGrant Null Null" "\<lambda>statement. None"]
  by (simp add: exampleGrant_def StringValue_def)

text \<open>
  It is the validators that reject a request with both set: \<open>Create\<close> alone, given such a
  plan, grants to the user; a plan with neither set it rejects itself.
\<close>

lemma grantCreate_both_set:
  "fst (grantCreate (\<lambda>statement. None) (exampleGrant (StringValue ''user'') (StringValue ''role'')))
     = [grantStatement (exampleGrant (StringValue ''user'') (StringValue ''role'')) ''user''
          @ '' WITH GRANT OPTION'']"
  by (simp add: grantCreate_def userOrRole_def exampleGrant_def StringValue_def BoolValue_def
      withGrantOption_def Let_def)

lemma grantCreate_neither_set:
  "IsNull (User plan) \<Longrightarrow> IsNull (Role plan) \<Longrightarrow> fst (grantCreate ExecContext plan) = []"
  by (simp add: grantCreate_def userOrRole_def)

end
